theory Spec2Isabelle
  imports Main "HOL-Library.Word" "HOL-Library.Sublist"
begin

unbundle bit_operations_syntax

section \<open>Data model\<close>

text \<open>
  The repository holds three versions of the collector: the current one (first program of
  \<open>src/main.go\<close>), an older one that closes a row when the capabilities column is seen
  (second program of \<open>src/main.go\<close>) and one that groups by a position in the identifier
  (\<open>src/unnamed/part_000\<close>). Functions of the current version keep their names; those of the
  other two carry the suffix \<open>_cap\<close> and \<open>_idx\<close>.
\<close>

type_synonym byte = "8 word"

text \<open>The tags of \<open>gosnmp.Asn1BER\<close>; the code only tells \<open>OctetString\<close> from the rest.\<close>

datatype Asn1BER =
    EndOfContents | UnknownType | Boolean | Integer | BitString | OctetString | Null
  | ObjectIdentifier | ObjectDescription | IPAddress | Counter32 | Gauge32 | TimeTicks
  | Opaque | NsapAddress | Counter64 | Uinteger32 | OpaqueFloat | OpaqueDouble
  | NoSuchObject | NoSuchInstance | EndOfMibView

text \<open>
  The dynamic value of the \<open>interface{}\<close> field \<open>Value\<close>: the nil interface, a byte slice,
  an integer of any width or signedness, a boolean, or a string (object identifiers and
  addresses). Floating-point payloads are left out of the model.
\<close>

datatype snmp_value =
    VNil
  | VBytes "byte list"
  | VInt int
  | VBool bool
  | VString string

record SnmpPDU =
  Name :: string
  Type :: Asn1BER
  Value :: snmp_value

text \<open>
  How a call can end without a value: a run-time panic (a failed type assertion), an
  \<open>error\<close> returned to the caller, or \<open>log.Fatalf\<close>, which ends the process.
\<close>

datatype failure =
    Panic string
  | Error string
  | Fatal string

section \<open>Value decoder (src/main.go, parseSNMPVariable and isMostlyPrintable)\<close>

text \<open>\<open>string(value)\<close> on a byte slice: the same bytes, read as text.\<close>

definition string_of_bytes :: "byte list \<Rightarrow> string" where
  "string_of_bytes bs = map (\<lambda>b. char_of (unat b)) bs"

text \<open>\<open>encoding/hex\<close>: two characters of the table per byte, high nibble first.\<close>

definition hextable :: string where
  "hextable = ''0123456789abcdef''"

fun EncodeToString :: "byte list \<Rightarrow> string" where
  "EncodeToString [] = []"
| "EncodeToString (v # src) =
     hextable ! unat (drop_bit 4 v) # hextable ! unat (v AND 0x0f) # EncodeToString src"

text \<open>The counting loop of \<open>isMostlyPrintable\<close>, with the counter as an accumulator.\<close>

fun nonPrintableCount :: "nat \<Rightarrow> byte list \<Rightarrow> nat" where
  "nonPrintableCount n [] = n"
| "nonPrintableCount n (b # data) =
     (if (b < 32 \<or> b > 126) \<and> b \<noteq> 10 \<and> b \<noteq> 13
      then nonPrintableCount (n + 1) data
      else nonPrintableCount n data)"

text \<open>
  \<open>return nonPrintableCount < len(data)/10\<close>: both sides are non-negative machine integers
  far below the overflow bound, and \<open>/\<close> is integer division.
\<close>

definition isMostlyPrintable :: "byte list \<Rightarrow> bool" where
  "isMostlyPrintable data \<longleftrightarrow> nonPrintableCount 0 data < length data div 10"

text \<open>Decimal text of a non-negative integer, as \<open>%v\<close> prints it.\<close>

function decimal :: "nat \<Rightarrow> string" where
  "decimal n = (if n < 10 then [char_of (48 + n)]
                else decimal (n div 10) @ [char_of (48 + n mod 10)])"
  by pat_completeness auto
termination
  by (relation "measure id") auto

fun spaced :: "string list \<Rightarrow> string" where
  "spaced [] = []"
| "spaced [s] = s"
| "spaced (s # t # ss) = s @ '' '' @ spaced (t # ss)"

text \<open>
  \<open>fmt.Sprintf("%v", value)\<close> on the values of the model: \<open><nil>\<close> for the nil interface,
  decimal for integers, \<open>true\<close>/\<open>false\<close>, a string as it is, and a byte slice as the
  bracketed list of its decimal elements.
\<close>

fun Sprintf_v :: "snmp_value \<Rightarrow> string" where
  "Sprintf_v VNil = ''<nil>''"
| "Sprintf_v (VBytes bs) = ''['' @ spaced (map (\<lambda>b. decimal (unat b)) bs) @ '']''"
| "Sprintf_v (VInt i) = (if i < 0 then ''-'' @ decimal (nat (- i)) else decimal (nat i))"
| "Sprintf_v (VBool b) = (if b then ''true'' else ''false'')"
| "Sprintf_v (VString s) = s"

text \<open>
  \<open>variable.Value.([]byte)\<close> is the one-result form of the type assertion: it panics
  when the dynamic value is not a byte slice, the nil interface included.
\<close>

fun assert_bytes :: "snmp_value \<Rightarrow> failure + byte list" where
  "assert_bytes (VBytes bs) = Inr bs"
| "assert_bytes _ = Inl (Panic ''interface conversion'')"

definition parseSNMPVariable :: "SnmpPDU \<Rightarrow> failure + string" where
  "parseSNMPVariable variable =
     (case Type variable of
        OctetString \<Rightarrow>
          (case assert_bytes (Value variable) of
             Inl e \<Rightarrow> Inl e
           | Inr value \<Rightarrow>
               if isMostlyPrintable value then Inr (string_of_bytes value)
               else Inr (EncodeToString value))
      | _ \<Rightarrow>
          if Value variable = VNil then Inr ''<nil>''
          else Inr (Sprintf_v (Value variable)))"

section \<open>Table reconstruction, current version (src/main.go, first program)\<close>

type_synonym row = "string \<rightharpoonup> string"

definition lldpLocChassisID :: string where
  "lldpLocChassisID = ''.1.0.8802.1.1.2.1.3.2.0''"

definition lldpLocSysName :: string where
  "lldpLocSysName = ''.1.0.8802.1.1.2.1.3.3.0''"

definition lldpLocPortDesc :: string where
  "lldpLocPortDesc = ''.1.0.8802.1.1.2.1.3.7.1.3''"

definition sysDesc :: string where
  "sysDesc = ''.1.3.6.1.2.1.1.1.0''"

definition sysVendor :: string where
  "sysVendor = ''.1.3.6.1.4.1.8072.3.2.10''"

definition lldpRemChassisID :: string where
  "lldpRemChassisID = ''.1.0.8802.1.1.2.1.4.1.1.5''"

definition lldpRemPortID :: string where
  "lldpRemPortID = ''.1.0.8802.1.1.2.1.4.1.1.7''"

definition lldpRemPortDesc :: string where
  "lldpRemPortDesc = ''.1.0.8802.1.1.2.1.4.1.1.8''"

definition lldpRemSysName :: string where
  "lldpRemSysName = ''.1.0.8802.1.1.2.1.4.1.1.9''"

definition lldpRemSysCap :: string where
  "lldpRemSysCap = ''.1.0.8802.1.1.2.1.4.1.1.12''"

definition lldpRemMgmtAddress :: string where
  "lldpRemMgmtAddress = ''.1.0.8802.1.1.2.1.4.2.1.4''"

definition lldpRemTable :: string where
  "lldpRemTable = ''.1.0.8802.1.1.2.1.4.1''"

definition requiredKeys :: "string list" where
  "requiredKeys =
     [''Remote Chassis ID'', ''Remote Port ID'', ''Remote Port Description'',
      ''Remote System Name'', ''Remote System Capabilities'', ''Remote Management Address'']"

text \<open>The loop of \<open>hasAllKeys\<close>: false at the first key that is missing.\<close>

fun hasKeys :: "string list \<Rightarrow> row \<Rightarrow> bool" where
  "hasKeys [] data = True"
| "hasKeys (key # keys) data = (if data key = None then False else hasKeys keys data)"

definition hasAllKeys :: "row \<Rightarrow> bool" where
  "hasAllKeys data = hasKeys requiredKeys data"

text \<open>
  The \<open>switch\<close> of \<open>fetchRemoteLLDP\<close>: the first case whose constant is a textual prefix
  (\<open>strings.HasPrefix\<close>) of the cell's name sets its label; no case, no change.
\<close>

definition remote_switch :: "row \<Rightarrow> string \<Rightarrow> string \<Rightarrow> row" where
  "remote_switch current name value =
     (if prefix lldpRemChassisID name then current(''Remote Chassis ID'' \<mapsto> value)
      else if prefix lldpRemPortID name then current(''Remote Port ID'' \<mapsto> value)
      else if prefix lldpRemPortDesc name then current(''Remote Port Description'' \<mapsto> value)
      else if prefix lldpRemSysName name then current(''Remote System Name'' \<mapsto> value)
      else if prefix lldpRemSysCap name then current(''Remote System Capabilities'' \<mapsto> value)
      else if prefix lldpRemMgmtAddress name then current(''Remote Management Address'' \<mapsto> value)
      else current)"

text \<open>
  The \<open>for\<close> loop of \<open>fetchRemoteLLDP\<close> over the walked cells, with \<open>results\<close> and
  \<open>current\<close> as the state; a panic of the decoder ends it.
\<close>

fun remote_walk :: "row list \<Rightarrow> row \<Rightarrow> SnmpPDU list \<Rightarrow> failure + (row list \<times> row)" where
  "remote_walk results current [] = Inr (results, current)"
| "remote_walk results current (variable # remoteInfo) =
     (case parseSNMPVariable variable of
        Inl e \<Rightarrow> Inl e
      | Inr value \<Rightarrow>
          (let current' = remote_switch current (Name variable) value
           in if hasAllKeys current'
              then remote_walk (results @ [current']) Map.empty remoteInfo
              else remote_walk results current' remoteInfo))"

text \<open>
  \<open>fetchRemoteLLDP\<close>, given what \<open>snmp.WalkAll(lldpRemTable)\<close> returned: an error text or
  the cells. After the loop a non-empty \<open>current\<close> is appended. The log lines it prints are
  not part of the model.
\<close>

definition fetchRemoteLLDP :: "string + SnmpPDU list \<Rightarrow> failure + row list" where
  "fetchRemoteLLDP walked =
     (case walked of
        Inl err \<Rightarrow> Inl (Error (''error getting remote LLDP info: '' @ err))
      | Inr remoteInfo \<Rightarrow>
          (case remote_walk [] Map.empty remoteInfo of
             Inl e \<Rightarrow> Inl e
           | Inr (results, current) \<Rightarrow>
               if current \<noteq> Map.empty then Inr (results @ [current]) else Inr results))"

text \<open>The label the \<open>switch\<close> selects for a name, if any; used to state the theorems.\<close>

definition column_label :: "string \<Rightarrow> string option" where
  "column_label name =
     (if prefix lldpRemChassisID name then Some ''Remote Chassis ID''
      else if prefix lldpRemPortID name then Some ''Remote Port ID''
      else if prefix lldpRemPortDesc name then Some ''Remote Port Description''
      else if prefix lldpRemSysName name then Some ''Remote System Name''
      else if prefix lldpRemSysCap name then Some ''Remote System Capabilities''
      else if prefix lldpRemMgmtAddress name then Some ''Remote Management Address''
      else None)"


text \<open>The \<open>switch\<close> of \<open>fetchLocalLLDP\<close>: exact comparison of the name.\<close>

definition local_switch :: "row \<Rightarrow> string \<Rightarrow> string \<Rightarrow> row" where
  "local_switch result name value =
     (if name = lldpLocChassisID then result(''Local Chassis ID'' \<mapsto> value)
      else if name = lldpLocSysName then result(''Local System Name'' \<mapsto> value)
      else if name = lldpLocPortDesc then result(''Local Port Description'' \<mapsto> value)
      else if name = sysDesc then result(''System Description'' \<mapsto> value)
      else if name = sysVendor then result(''System Vendor'' \<mapsto> value)
      else result)"

fun local_loop :: "row \<Rightarrow> SnmpPDU list \<Rightarrow> failure + row" where
  "local_loop result [] = Inr result"
| "local_loop result (variable # variables) =
     (case parseSNMPVariable variable of
        Inl e \<Rightarrow> Inl e
      | Inr value \<Rightarrow> local_loop (local_switch result (Name variable) value) variables)"

definition fetchLocalLLDP :: "string + SnmpPDU list \<Rightarrow> failure + row" where
  "fetchLocalLLDP got =
     (case got of
        Inl err \<Rightarrow> Inl (Error (''error getting local LLDP info: '' @ err))
      | Inr variables \<Rightarrow> local_loop Map.empty variables)"

section \<open>The batch loop (src/main.go, main and initializeSNMP)\<close>

text \<open>
  The network is a parameter: what \<open>Connect\<close>, \<open>Get\<close> and \<open>WalkAll\<close> answer for a target.
  \<open>Connect\<close> answers with an error text when it fails.
\<close>

record transport =
  Connect :: "string \<Rightarrow> string \<Rightarrow> string option"
  Get :: "string \<Rightarrow> string list \<Rightarrow> string + SnmpPDU list"
  WalkAll :: "string \<Rightarrow> string \<Rightarrow> string + SnmpPDU list"

text \<open>\<open>initializeSNMP\<close>: a failed \<open>Connect\<close> goes to \<open>log.Fatalf\<close>, which exits the process.\<close>

definition initializeSNMP :: "transport \<Rightarrow> string \<Rightarrow> string \<Rightarrow> failure + string" where
  "initializeSNMP net target community =
     (case Connect net target community of
        Some err \<Rightarrow> Inl (Fatal (''Error connecting to target '' @ target @ '': '' @ err))
      | None \<Rightarrow> Inr target)"

datatype log_line =
    SkippingInvalidRecord "string list"
  | ErrorFetchingLocal string string
  | ErrorFetchingRemote string string

record batch =
  allLocalInfo :: "string \<rightharpoonup> row"
  allRemoteInfo :: "string \<rightharpoonup> row list"
  logged :: "log_line list"

definition localOids :: "string list" where
  "localOids = [lldpLocChassisID, lldpLocSysName, lldpLocPortDesc, sysDesc, sysVendor]"

text \<open>
  The \<open>for\<close> loop of \<open>main\<close> over the input records. An \<open>error\<close> from a fetch is logged
  and the loop continues; a panic or \<open>log.Fatalf\<close> ends the run with nothing written.
\<close>

fun main_loop :: "transport \<Rightarrow> batch \<Rightarrow> string list list \<Rightarrow> failure + batch" where
  "main_loop net st [] = Inr st"
| "main_loop net st (rec # records) =
     (if length rec < 2
      then main_loop net (st\<lparr>logged := logged st @ [SkippingInvalidRecord rec]\<rparr>) records
      else
        (let target = rec ! 0; community = rec ! 1
         in case initializeSNMP net target community of
              Inl e \<Rightarrow> Inl e
            | Inr snmp \<Rightarrow>
                (case fetchLocalLLDP (Get net snmp localOids) of
                   Inl (Error err) \<Rightarrow>
                     main_loop net (st\<lparr>logged := logged st @ [ErrorFetchingLocal target err]\<rparr>) records
                 | Inl e \<Rightarrow> Inl e
                 | Inr localInfo \<Rightarrow>
                     (case fetchRemoteLLDP (WalkAll net snmp lldpRemTable) of
                        Inl (Error err) \<Rightarrow>
                          main_loop net (st\<lparr>logged := logged st @ [ErrorFetchingRemote target err]\<rparr>) records
                      | Inl e \<Rightarrow> Inl e
                      | Inr remoteInfo \<Rightarrow>
                          main_loop net
                            (st\<lparr>allLocalInfo := (allLocalInfo st)(target \<mapsto> localInfo),
                                allRemoteInfo := (allRemoteInfo st)(target \<mapsto> remoteInfo)\<rparr>)
                            records))))"

text \<open>\<open>main\<close> after the input file was read: the result is what goes to \<open>writeBatchCSV\<close>.\<close>

definition main :: "transport \<Rightarrow> string list list \<Rightarrow> failure + batch" where
  "main net records =
     main_loop net \<lparr>allLocalInfo = Map.empty, allRemoteInfo = Map.empty, logged = []\<rparr> records"

section \<open>Older version: a row ends at the capabilities column (src/main.go, second program)\<close>




section \<open>Version grouping by identifier position (src/unnamed/part_000)\<close>

text \<open>
  \<open>strings.Split(oid, ".")\<close> for the one-character separator: the pieces between the
  separators, one more than there are separators.
\<close>

fun Split :: "string \<Rightarrow> char \<Rightarrow> string list" where
  "Split [] sep = [[]]"
| "Split (c # s) sep =
     (if c = sep then [] # Split s sep
      else (case Split s sep of [] \<Rightarrow> [[c]] | p # ps \<Rightarrow> (c # p) # ps))"

definition parseOID :: "string \<Rightarrow> string list" where
  "parseOID oid = Split oid CHR ''.''"

definition parseSNMPVariable_idx :: "SnmpPDU \<Rightarrow> failure + string" where
  "parseSNMPVariable_idx variable =
     (case Type variable of
        OctetString \<Rightarrow>
          (case assert_bytes (Value variable) of
             Inl e \<Rightarrow> Inl e
           | Inr value \<Rightarrow> Inr (string_of_bytes value))
      | _ \<Rightarrow> Inr (Sprintf_v (Value variable)))"

text \<open>
  The loop of this \<open>fetchRemoteLLDP\<close>. The row key (\<open>id\<close> in the source) is the third
  component from the end and the column key \<open>subOid\<close> the second from the end; a name of
  fewer than three components is passed over. \<open>entry\<close> is \<open>result[id]\<close> after the source
  has created it when missing.
\<close>

fun remote_walk_idx :: "(string \<rightharpoonup> row) \<Rightarrow> SnmpPDU list \<Rightarrow> failure + (string \<rightharpoonup> row)" where
  "remote_walk_idx result [] = Inr result"
| "remote_walk_idx result (variable # remoteInfo) =
     (let oidParts = parseOID (Name variable)
      in if length oidParts < 3 then remote_walk_idx result remoteInfo
         else
           (let rowId = oidParts ! (length oidParts - 3);
                subOid = oidParts ! (length oidParts - 2);
                entry = (case result rowId of None \<Rightarrow> Map.empty | Some r \<Rightarrow> r)
            in case parseSNMPVariable_idx variable of
                 Inl e \<Rightarrow> Inl e
               | Inr value \<Rightarrow>
                   remote_walk_idx (result(rowId \<mapsto> entry(subOid \<mapsto> value))) remoteInfo))"


text \<open>
  The two keys the loop computes for a cell, on their own: none for a name of fewer than
  three components.
\<close>

definition row_key :: "SnmpPDU \<Rightarrow> string option" where
  "row_key variable =
     (let oidParts = parseOID (Name variable)
      in if length oidParts < 3 then None else Some (oidParts ! (length oidParts - 3)))"

definition column_key :: "SnmpPDU \<Rightarrow> string option" where
  "column_key variable =
     (let oidParts = parseOID (Name variable)
      in if length oidParts < 3 then None else Some (oidParts ! (length oidParts - 2)))"






section \<open>Notions of the specification, to compare the code with\<close>







section \<open>Concrete cells and walks\<close>

definition octets :: "string \<Rightarrow> byte list \<Rightarrow> SnmpPDU" where
  "octets name bs = \<lparr>Name = name, Type = OctetString, Value = VBytes bs\<rparr>"

text \<open>The bytes of the text \<open>switch-1\<close>.\<close>

definition switch_1 :: "byte list" where
  "switch_1 = [0x73, 0x77, 0x69, 0x74, 0x63, 0x68, 0x2d, 0x31]"

text \<open>
  A walk of the table root in ascending identifier order over two neighbours, with index
  \<open>0.1.1\<close> and \<open>0.2.1\<close>: the second has every column of the table, the first has no
  port description.
\<close>

definition walk_one_short :: "SnmpPDU list" where
  "walk_one_short =
     [octets ''.1.0.8802.1.1.2.1.4.1.1.5.0.1.1'' [0xa5],
      octets ''.1.0.8802.1.1.2.1.4.1.1.5.0.2.1'' [0xb5],
      octets ''.1.0.8802.1.1.2.1.4.1.1.7.0.1.1'' [0xa7],
      octets ''.1.0.8802.1.1.2.1.4.1.1.7.0.2.1'' [0xb7],
      octets ''.1.0.8802.1.1.2.1.4.1.1.8.0.2.1'' [0xb8],
      octets ''.1.0.8802.1.1.2.1.4.1.1.9.0.1.1'' [0xa9],
      octets ''.1.0.8802.1.1.2.1.4.1.1.9.0.2.1'' [0xb9],
      octets ''.1.0.8802.1.1.2.1.4.1.1.12.0.1.1'' [0xac],
      octets ''.1.0.8802.1.1.2.1.4.1.1.12.0.2.1'' [0xbc]]"

text \<open>
  The five columns of one neighbour under the table root; a management-address cell, which
  lies outside the root; and two columns of another neighbour.
\<close>

definition five_columns :: "SnmpPDU list" where
  "five_columns =
     [octets ''.1.0.8802.1.1.2.1.4.1.1.5.0.2.1'' [0xb5],
      octets ''.1.0.8802.1.1.2.1.4.1.1.7.0.2.1'' [0xb7],
      octets ''.1.0.8802.1.1.2.1.4.1.1.8.0.2.1'' [0xb8],
      octets ''.1.0.8802.1.1.2.1.4.1.1.9.0.2.1'' [0xb9],
      octets ''.1.0.8802.1.1.2.1.4.1.1.12.0.2.1'' [0xbc]]"

definition sixth_column :: SnmpPDU where
  "sixth_column = octets ''.1.0.8802.1.1.2.1.4.2.1.4.0.2.1'' [0xb4]"

definition two_columns :: "SnmpPDU list" where
  "two_columns =
     [octets ''.1.0.8802.1.1.2.1.4.1.1.5.0.3.1'' [0xc5],
      octets ''.1.0.8802.1.1.2.1.4.1.1.7.0.3.1'' [0xc7]]"


definition row_five :: row where
  "row_five =
     [''Remote Chassis ID'' \<mapsto> ''b5'', ''Remote Port ID'' \<mapsto> ''b7'',
      ''Remote Port Description'' \<mapsto> ''b8'', ''Remote System Name'' \<mapsto> ''b9'',
      ''Remote System Capabilities'' \<mapsto> ''bc'']"

definition row_full :: row where
  "row_full = row_five(''Remote Management Address'' \<mapsto> ''b4'')"

definition row_two :: row where
  "row_two = [''Remote Chassis ID'' \<mapsto> ''c5'', ''Remote Port ID'' \<mapsto> ''c7'']"





text \<open>A network on which connecting to \<open>sw-down\<close> fails and every other exchange answers empty.\<close>

definition net_first_down :: transport where
  "net_first_down =
     \<lparr>Connect = (\<lambda>target community.
          if target = ''sw-down'' then Some ''lookup sw-down: no such host'' else None),
      Get = (\<lambda>target oids. Inr []),
      WalkAll = (\<lambda>target root. Inr [])\<rparr>"

section \<open>Properties of the value decoder\<close>

lemma nonPrintableCount_acc: "nonPrintableCount n data = n + nonPrintableCount 0 data"
proof (induction data arbitrary: n)
  case Nil
  show ?case by simp
next
  case (Cons b data)
  from Cons.IH [of "n + 1"] Cons.IH [of 1] Cons.IH [of n]
  show ?case by simp
qed

text \<open>The loop counts the bytes outside 32..126 other than 10 and 13.\<close>

lemma nonPrintableCount_filter:
  "nonPrintableCount 0 data =
     length (filter (\<lambda>b. (b < 32 \<or> b > 126) \<and> b \<noteq> 10 \<and> b \<noteq> 13) data)"
proof (induction data)
  case Nil
  show ?case by simp
next
  case (Cons b data)
  then show ?case using nonPrintableCount_acc [of 1 data] by simp
qed

lemma length_EncodeToString: "length (EncodeToString src) = 2 * length src"
  by (induction src) simp_all

lemma nibble_high: "unat (drop_bit 4 (v :: byte)) < 16"
proof -
  have "unat (drop_bit 4 v) = unat v div 16"
    by (simp add: unat_drop_bit_eq drop_bit_eq_div unat_div)
  moreover have "unat v < 256"
    using unsigned_less [of v] by simp
  ultimately show ?thesis by simp
qed

lemma nibble_low: "unat ((v :: byte) AND 0x0f) < 16"
proof -
  have "v AND 0x0f \<le> 0x0f"
    by (rule word_and_le1)
  then have "unat (v AND 0x0f) \<le> 15"
    by (simp add: word_le_nat_alt)
  then show ?thesis by simp
qed

lemma hextable_nth: "i < 16 \<Longrightarrow> hextable ! i \<in> set ''0123456789abcdef''"
  unfolding hextable_def by (rule nth_mem) simp

lemma EncodeToString_lowercase_hex: "set (EncodeToString src) \<subseteq> set ''0123456789abcdef''"
proof (induction src)
  case Nil
  show ?case by simp
next
  case (Cons v src)
  from hextable_nth [OF nibble_high [of v]] hextable_nth [OF nibble_low [of v]] Cons
  show ?case by simp
qed

lemma parse_OctetString:
  "parseSNMPVariable \<lparr>Name = n, Type = OctetString, Value = VBytes P\<rparr> =
     (if nonPrintableCount 0 P < length P div 10 then Inr (string_of_bytes P)
      else Inr (EncodeToString P))"
  by (simp add: parseSNMPVariable_def isMostlyPrintable_def)

text \<open>
  The hexadecimal half of the rule holds as the specification states it: a payload with at
  least one non-printable byte in ten is hex-encoded, two lowercase digits per byte.
\<close>

lemma parse_hex_half:
  assumes "length P \<le> 10 * nonPrintableCount 0 P"
  shows "parseSNMPVariable \<lparr>Name = n, Type = OctetString, Value = VBytes P\<rparr> = Inr (EncodeToString P)"
proof -
  from assms have "\<not> nonPrintableCount 0 P < length P div 10" by linarith
  then show ?thesis by (simp add: parse_OctetString)
qed

text \<open>
  The text half needs more than the specification says: the payload is returned as text
  exactly when ten times (the count plus one) fits into the length. A payload of fewer than
  ten bytes is therefore always hex-encoded.
\<close>

lemma parse_text_iff:
  "isMostlyPrintable P \<longleftrightarrow> 10 * (nonPrintableCount 0 P + 1) \<le> length P"
  unfolding isMostlyPrintable_def by auto

lemma short_payload_hex:
  assumes "length P < 10"
  shows "parseSNMPVariable \<lparr>Name = n, Type = OctetString, Value = VBytes P\<rparr> = Inr (EncodeToString P)"
  using assms by (simp add: parse_OctetString)

text \<open>
  C1. The claim: a non-empty byte string whose non-printable bytes are strictly fewer than
  10% of its length decodes to its raw text, and to lowercase hex otherwise. The comment in
  \<open>isMostlyPrintable\<close> says the same ("printable if more than 90% of the characters are
  printable"), but the comparison is against \<open>len(data)/10\<close> in integer division. At the
  eight printable bytes of \<open>switch-1\<close> the count is 0, the bound is \<open>8/10 = 0\<close>, and
  the decoder returns the hex text instead of \<open>switch-1\<close>.
\<close>

theorem printable_switch_1_decoded_as_hex:
  "nonPrintableCount 0 switch_1 = 0
   \<and> string_of_bytes switch_1 = ''switch-1''
   \<and> parseSNMPVariable \<lparr>Name = ''.1.0.8802.1.1.2.1.3.3.0'', Type = OctetString, Value = VBytes switch_1\<rparr>
       = Inr ''7377697463682d31''"
  by code_simp

text \<open>
  C9. The claim, as amended: a zero-length byte string decodes to the empty string; the
  printability test is false on it (\<open>0 < 0\<close>), so the value comes from the hex branch,
  whose output on no bytes is empty.
\<close>

theorem empty_payload_empty_hex:
  "parseSNMPVariable \<lparr>Name = n, Type = OctetString, Value = VBytes []\<rparr> = Inr []
   \<and> \<not> isMostlyPrintable []
   \<and> EncodeToString [] = []"
  by (simp add: parseSNMPVariable_def isMostlyPrintable_def)

text \<open>C9 as stated fails: the empty payload is not taken as mostly printable.\<close>

theorem empty_payload_not_printable: "isMostlyPrintable [] = False"
  by (simp add: isMostlyPrintable_def)

text \<open>
  C7. The claim, as amended: a cell whose raw value is absent and whose wire type is not
  byte-string decodes to the sentinel \<open><nil>\<close>.
\<close>

theorem absent_value_nil_sentinel:
  "Value variable = VNil \<Longrightarrow> Type variable \<noteq> OctetString \<Longrightarrow>
   parseSNMPVariable variable = Inr ''<nil>''"
  by (cases "Type variable") (simp_all add: parseSNMPVariable_def)

theorem absent_value_nil_sentinel_witness:
  "parseSNMPVariable \<lparr>Name = ''.1.3.6.1.4.1.8072.3.2.10'', Type = NoSuchObject, Value = VNil\<rparr>
     = Inr ''<nil>''"
  using absent_value_nil_sentinel
    [of "\<lparr>Name = ''.1.3.6.1.4.1.8072.3.2.10'', Type = NoSuchObject, Value = VNil\<rparr>"]
  by simp

text \<open>
  C7 as stated fails on a byte-string cell with an absent value: the type switch comes
  first, and the type assertion panics before any sentinel is produced.
\<close>

theorem absent_octet_string_no_sentinel:
  "parseSNMPVariable \<lparr>Name = ''.1.0.8802.1.1.2.1.3.2.0'', Type = OctetString, Value = VNil\<rparr>
     \<noteq> Inr ''<nil>''"
  by (simp add: parseSNMPVariable_def)

text \<open>
  C8. The claim, as amended: decode returns a string on every cell except a byte-string
  cell whose raw value is not a byte sequence (the absent value included); on those it
  panics.
\<close>

theorem decode_returns_iff:
  "(\<exists>s. parseSNMPVariable variable = Inr s) \<longleftrightarrow>
   (Type variable = OctetString \<longrightarrow> (\<exists>bs. Value variable = VBytes bs))"
  by (cases "Type variable"; cases "Value variable") (simp_all add: parseSNMPVariable_def)

theorem decode_returns_iff_witness:
  "(\<exists>s. parseSNMPVariable \<lparr>Name = ''.1.0.8802.1.1.2.1.3.2.0'', Type = OctetString, Value = VBytes []\<rparr> = Inr s)
   \<and> (\<exists>s. parseSNMPVariable \<lparr>Name = ''.1.3.6.1.2.1.1.1.0'', Type = Integer, Value = VInt 7\<rparr> = Inr s)"
  using decode_returns_iff
      [of "\<lparr>Name = ''.1.0.8802.1.1.2.1.3.2.0'', Type = OctetString, Value = VBytes []\<rparr>"]
    decode_returns_iff
      [of "\<lparr>Name = ''.1.3.6.1.2.1.1.1.0'', Type = Integer, Value = VInt 7\<rparr>"]
  by simp

text \<open>C8 as stated fails: decode is not total.\<close>

theorem absent_octet_string_panics:
  "parseSNMPVariable \<lparr>Name = ''.1.0.8802.1.1.2.1.3.2.0'', Type = OctetString, Value = VNil\<rparr>
     = Inl (Panic ''interface conversion'')"
  by (simp add: parseSNMPVariable_def)

section \<open>Properties of completion-driven grouping\<close>

lemma hasKeys_iff: "hasKeys keys data \<longleftrightarrow> set keys \<subseteq> dom data"
  by (induction keys) (auto simp: dom_def)

lemma hasAllKeys_iff: "hasAllKeys data \<longleftrightarrow> set requiredKeys \<subseteq> dom data"
  by (simp add: hasAllKeys_def hasKeys_iff)



lemma hasAllKeys_empty: "\<not> hasAllKeys Map.empty"
  by (simp add: hasAllKeys_def requiredKeys_def)


lemma remote_switch_label:
  "remote_switch current name value =
     (case column_label name of None \<Rightarrow> current | Some l \<Rightarrow> current(l \<mapsto> value))"
  by (simp add: remote_switch_def column_label_def)

lemma column_label_required: "column_label name = Some l \<Longrightarrow> l \<in> set requiredKeys"
  by (auto simp: column_label_def requiredKeys_def split: if_splits)

lemma dom_remote_switch:
  "dom (remote_switch current name value) = dom current \<union> set_option (column_label name)"
  by (cases "column_label name") (simp_all add: remote_switch_label)

lemma remote_walk_incomplete:
  "remote_walk results current xs = Inr (results', current') \<Longrightarrow> \<not> hasAllKeys current \<Longrightarrow>
   \<not> hasAllKeys current'"
proof (induction xs arbitrary: results current)
  case Nil
  then show ?case by simp
next
  case (Cons x xs)
  from Cons.prems(1) obtain v where v: "parseSNMPVariable x = Inr v"
    by (cases "parseSNMPVariable x") simp_all
  let ?c = "remote_switch current (Name x) v"
  show ?case
  proof (cases "hasAllKeys ?c")
    case True
    with Cons.prems v have "remote_walk (results @ [?c]) Map.empty xs = Inr (results', current')"
      by simp
    from Cons.IH [OF this hasAllKeys_empty] show ?thesis .
  next
    case False
    with Cons.prems v have "remote_walk results ?c xs = Inr (results', current')"
      by simp
    from Cons.IH [OF this False] show ?thesis .
  qed
qed

lemma remote_walk_extends:
  "remote_walk results current xs = Inr (results', current') \<Longrightarrow> set results \<subseteq> set results'"
proof (induction xs arbitrary: results current)
  case Nil
  then show ?case by simp
next
  case (Cons x xs)
  from Cons.prems obtain v where v: "parseSNMPVariable x = Inr v"
    by (cases "parseSNMPVariable x") simp_all
  let ?c = "remote_switch current (Name x) v"
  show ?case
  proof (cases "hasAllKeys ?c")
    case True
    with Cons.prems v have "remote_walk (results @ [?c]) Map.empty xs = Inr (results', current')"
      by simp
    from Cons.IH [OF this] show ?thesis by simp
  next
    case False
    with Cons.prems v have "remote_walk results ?c xs = Inr (results', current')"
      by simp
    from Cons.IH [OF this] show ?thesis .
  qed
qed

text \<open>
  No label is lost when the loop returns: a label held by the accumulator or set by a cell
  of the walk is, at the end, in the accumulator or in an emitted record.
\<close>

lemma remote_walk_keeps_labels:
  "remote_walk results current xs = Inr (results', current') \<Longrightarrow>
   l \<in> dom current \<or> (\<exists>c \<in> set xs. column_label (Name c) = Some l) \<Longrightarrow>
   l \<in> dom current' \<or> (\<exists>r \<in> set results'. l \<in> dom r)"
proof (induction xs arbitrary: results current)
  case Nil
  then show ?case by simp
next
  case (Cons x xs)
  from Cons.prems(1) obtain v where v: "parseSNMPVariable x = Inr v"
    by (cases "parseSNMPVariable x") simp_all
  let ?c = "remote_switch current (Name x) v"
  from Cons.prems(2)
  have here: "l \<in> dom ?c \<or> (\<exists>c \<in> set xs. column_label (Name c) = Some l)"
    by (auto simp: dom_remote_switch)
  show ?case
  proof (cases "hasAllKeys ?c")
    case True
    with Cons.prems v have run: "remote_walk (results @ [?c]) Map.empty xs = Inr (results', current')"
      by simp
    show ?thesis
    proof (cases "l \<in> dom ?c")
      case True
      moreover from remote_walk_extends [OF run] have "?c \<in> set results'" by simp
      ultimately show ?thesis by blast
    next
      case False
      with here have "l \<in> dom (Map.empty :: row) \<or> (\<exists>c \<in> set xs. column_label (Name c) = Some l)"
        by simp
      with run show ?thesis by (rule Cons.IH)
    qed
  next
    case False
    with Cons.prems v have run: "remote_walk results ?c xs = Inr (results', current')"
      by simp
    from run here show ?thesis by (rule Cons.IH)
  qed
qed

lemma remote_walk_invariant:
  "remote_walk results current xs = Inr (results', current') \<Longrightarrow>
   (\<forall>r \<in> set results. dom r = set requiredKeys) \<Longrightarrow> dom current \<subseteq> set requiredKeys \<Longrightarrow>
   (\<forall>r \<in> set results'. dom r = set requiredKeys) \<and> dom current' \<subseteq> set requiredKeys"
proof (induction xs arbitrary: results current)
  case Nil
  then show ?case by simp
next
  case (Cons x xs)
  from Cons.prems(1) obtain v where v: "parseSNMPVariable x = Inr v"
    by (cases "parseSNMPVariable x") simp_all
  let ?c = "remote_switch current (Name x) v"
  have sub: "dom ?c \<subseteq> set requiredKeys"
    using Cons.prems(3) column_label_required [of "Name x"]
    by (cases "column_label (Name x)") (auto simp: dom_remote_switch)
  show ?case
  proof (cases "hasAllKeys ?c")
    case True
    with sub have full: "dom ?c = set requiredKeys"
      by (auto simp: hasAllKeys_iff)
    from True Cons.prems v have run: "remote_walk (results @ [?c]) Map.empty xs = Inr (results', current')"
      by simp
    have "\<forall>r \<in> set (results @ [?c]). dom r = set requiredKeys"
      using Cons.prems(2) full by simp
    from Cons.IH [OF run this] show ?thesis by simp
  next
    case False
    with Cons.prems v have run: "remote_walk results ?c xs = Inr (results', current')"
      by simp
    from Cons.IH [OF run Cons.prems(2) sub] show ?thesis .
  qed
qed





text \<open>
  The management-address column lies outside the walked root (\<open>.4.2\<close> against
  \<open>.4.1\<close>), so a walk confined to the root never completes a row: whatever the number of
  neighbours, all its cells are merged into at most one record.
\<close>

lemma under_root_not_management:
  assumes "prefix lldpRemTable name"
  shows "column_label name \<noteq> Some ''Remote Management Address''"
proof
  assume label: "column_label name = Some ''Remote Management Address''"
  then have "prefix lldpRemMgmtAddress name"
    by (simp add: column_label_def split: if_splits)
  with assms show False
    by (auto simp: prefix_def lldpRemTable_def lldpRemMgmtAddress_def)
qed

lemma remote_walk_never_complete:
  "remote_walk results current xs = Inr (results', current') \<Longrightarrow>
   ''Remote Management Address'' \<notin> dom current \<Longrightarrow>
   \<forall>c \<in> set xs. column_label (Name c) \<noteq> Some ''Remote Management Address'' \<Longrightarrow>
   results' = results \<and> ''Remote Management Address'' \<notin> dom current'"
proof (induction xs arbitrary: current)
  case Nil
  then show ?case by simp
next
  case (Cons x xs)
  from Cons.prems(1) obtain v where v: "parseSNMPVariable x = Inr v"
    by (cases "parseSNMPVariable x") simp_all
  let ?c = "remote_switch current (Name x) v"
  from Cons.prems(2,3) have absent: "''Remote Management Address'' \<notin> dom ?c"
    by (cases "column_label (Name x)") (auto simp: dom_remote_switch)
  then have "\<not> hasAllKeys ?c"
    by (auto simp: hasAllKeys_iff requiredKeys_def)
  with Cons.prems(1) v have run: "remote_walk results ?c xs = Inr (results', current')"
    by simp
  from Cons.prems(3) have rest: "\<forall>c \<in> set xs. column_label (Name c) \<noteq> Some ''Remote Management Address''"
    by simp
  from run absent rest show ?case by (rule Cons.IH)
qed

lemma walk_under_root_one_record:
  assumes "\<forall>c \<in> set cells. prefix lldpRemTable (Name c)"
    and "fetchRemoteLLDP (Inr cells) = Inr out"
  shows "length out \<le> 1"
proof -
  from assms(2) obtain results current where
    run: "remote_walk [] Map.empty cells = Inr (results, current)"
    and out: "out = (if current \<noteq> Map.empty then results @ [current] else results)"
    by (auto simp: fetchRemoteLLDP_def split: sum.splits if_splits)
  from assms(1) have "\<forall>c \<in> set cells. column_label (Name c) \<noteq> Some ''Remote Management Address''"
    by (simp add: under_root_not_management)
  with run have "results = []"
    using remote_walk_never_complete [of "[]" Map.empty cells results current] by simp
  with out show ?thesis by simp
qed

subsection \<open>Evaluation of the concrete walks\<close>

lemma Name_octets: "Name (octets name bs) = name"
  by (simp add: octets_def)

lemma parse_one_octet: "parseSNMPVariable (octets name [b]) = Inr (EncodeToString [b])"
  by (simp add: octets_def parseSNMPVariable_def isMostlyPrintable_def)

lemmas oid_defs = lldpRemChassisID_def lldpRemPortID_def lldpRemPortDesc_def lldpRemSysName_def
  lldpRemSysCap_def lldpRemMgmtAddress_def

lemmas walk_simps = parse_one_octet Name_octets remote_switch_def oid_defs hasAllKeys_def
  requiredKeys_def hextable_def Let_def

lemma walk_one_short_result: "fetchRemoteLLDP (Inr walk_one_short) = Inr [row_five]"
  by (simp add: fetchRemoteLLDP_def walk_one_short_def row_five_def walk_simps)

lemma walk_one_short_under_root: "\<forall>c \<in> set walk_one_short. prefix lldpRemTable (Name c)"
  by (simp add: walk_one_short_def Name_octets lldpRemTable_def)

lemma five_columns_result: "fetchRemoteLLDP (Inr five_columns) = Inr [row_five]"
  by (simp add: fetchRemoteLLDP_def five_columns_def row_five_def walk_simps)



text \<open>
  A sequence built by hand, which \<open>WalkAll(lldpRemTable)\<close> does not return: the five
  columns of one neighbour, a management-address cell, and two columns of another
  neighbour. The function accepts it, and on it a row is completed.
\<close>

lemma hand_built_result:
  "fetchRemoteLLDP (Inr (five_columns @ sixth_column # two_columns)) = Inr [row_full, row_two]"
  by (simp add: fetchRemoteLLDP_def five_columns_def sixth_column_def two_columns_def
      row_full_def row_five_def row_two_def walk_simps)










text \<open>
  C10. The claim: every key of every emitted record is one of the six remote labels, and
  every record except possibly the last holds all six. On a walk under the table root the
  second half has nothing to say: there is at most one record.
\<close>

theorem emitted_records_invariant:
  assumes "fetchRemoteLLDP (Inr cells) = Inr out"
  shows "(\<forall>r \<in> set out. dom r \<subseteq>
            {''Remote Chassis ID'', ''Remote Port ID'', ''Remote Port Description'',
             ''Remote System Name'', ''Remote System Capabilities'', ''Remote Management Address''})
       \<and> (\<forall>r \<in> set (butlast out). dom r =
            {''Remote Chassis ID'', ''Remote Port ID'', ''Remote Port Description'',
             ''Remote System Name'', ''Remote System Capabilities'', ''Remote Management Address''})
       \<and> ((\<forall>c \<in> set cells. prefix lldpRemTable (Name c)) \<longrightarrow> length out \<le> 1)"
proof -
  from assms obtain results current where
    run: "remote_walk [] Map.empty cells = Inr (results, current)"
    and out: "out = (if current \<noteq> Map.empty then results @ [current] else results)"
    by (auto simp: fetchRemoteLLDP_def split: sum.splits if_splits)
  from remote_walk_invariant [OF run] have
    full: "\<forall>r \<in> set results. dom r = set requiredKeys" and part: "dom current \<subseteq> set requiredKeys"
    by simp_all
  have keys: "set requiredKeys =
      {''Remote Chassis ID'', ''Remote Port ID'', ''Remote Port Description'',
       ''Remote System Name'', ''Remote System Capabilities'', ''Remote Management Address''}"
    by (simp add: requiredKeys_def)
  have "\<forall>r \<in> set out. dom r \<subseteq> set requiredKeys"
    using full part out by auto
  moreover have "\<forall>r \<in> set (butlast out). dom r = set requiredKeys"
  proof
    fix r assume "r \<in> set (butlast out)"
    then have "r \<in> set results"
      using out by (auto split: if_splits dest: in_set_butlastD)
    with full show "dom r = set requiredKeys" by simp
  qed
  moreover have "(\<forall>c \<in> set cells. prefix lldpRemTable (Name c)) \<longrightarrow> length out \<le> 1"
    using walk_under_root_one_record [OF _ assms] by blast
  ultimately show ?thesis unfolding keys by blast
qed

text \<open>
  The theorem at \<open>walk_one_short\<close>, a walk under the table root, and at the sequence
  built by hand, the only kind of input on which a record is followed by another.
\<close>

theorem emitted_records_invariant_witness:
  "dom row_five \<subseteq>
     {''Remote Chassis ID'', ''Remote Port ID'', ''Remote Port Description'',
      ''Remote System Name'', ''Remote System Capabilities'', ''Remote Management Address''}
   \<and> length [row_five] \<le> 1
   \<and> dom row_full =
     {''Remote Chassis ID'', ''Remote Port ID'', ''Remote Port Description'',
      ''Remote System Name'', ''Remote System Capabilities'', ''Remote Management Address''}
   \<and> dom row_two \<subseteq>
     {''Remote Chassis ID'', ''Remote Port ID'', ''Remote Port Description'',
      ''Remote System Name'', ''Remote System Capabilities'', ''Remote Management Address''}"
  using emitted_records_invariant [OF walk_one_short_result] walk_one_short_under_root
    emitted_records_invariant [OF hand_built_result]
  by simp

text \<open>
  C3. The claim: a neighbour whose group lacks some tracked attributes, among neighbours
  whose groups are complete, gets exactly one record of its own. The loop is meant to
  append a record for each complete set (its comment: "Check if we have a complete set and
  append"), but the sixth required key is the management address, whose identifier
  \<open>lldpRemMgmtAddress\<close> lies outside the walked \<open>lldpRemTable\<close>, so no set is ever
  complete. In \<open>walk_one_short\<close> the neighbour with index \<open>0.1.1\<close> lacks the port
  description and the neighbour with index \<open>0.2.1\<close> has every column of the table. One
  record is returned for the two: it holds the second neighbour's values, and the first
  neighbour's chassis ID, port ID, system name and capabilities (\<open>a5\<close>, \<open>a7\<close>, \<open>a9\<close>,
  \<open>ac\<close>) are in no record.
\<close>

theorem incomplete_neighbour_merged:
  "fetchRemoteLLDP (Inr walk_one_short) =
     Inr [[''Remote Chassis ID'' \<mapsto> ''b5'', ''Remote Port ID'' \<mapsto> ''b7'',
           ''Remote Port Description'' \<mapsto> ''b8'', ''Remote System Name'' \<mapsto> ''b9'',
           ''Remote System Capabilities'' \<mapsto> ''bc'']]"
  using walk_one_short_result by (simp add: row_five_def)

section \<open>Properties of grouping by identifier position\<close>

lemma keys_together: "row_key c = None \<longleftrightarrow> column_key c = None"
  by (simp add: row_key_def column_key_def Let_def)

lemma remote_walk_idx_skip:
  "row_key c = None \<Longrightarrow> remote_walk_idx result (c # xs) = remote_walk_idx result xs"
  by (simp add: row_key_def Let_def split: if_splits)

lemma remote_walk_idx_store:
  "row_key c = Some k \<Longrightarrow> column_key c = Some s \<Longrightarrow>
   remote_walk_idx result (c # xs) =
     (case parseSNMPVariable_idx c of
        Inl e \<Rightarrow> Inl e
      | Inr v \<Rightarrow>
          remote_walk_idx
            (result(k \<mapsto> (case result k of None \<Rightarrow> Map.empty | Some r \<Rightarrow> r)(s \<mapsto> v))) xs)"
  by (auto simp: row_key_def column_key_def Let_def split: if_splits)











declare remote_walk_idx.simps(2) [simp del]



text \<open>This loop, too, ends with a result whenever every byte-string cell carries bytes.\<close>

lemma remote_walk_idx_total:
  "\<forall>c \<in> set xs. Type c = OctetString \<longrightarrow> (\<exists>bs. Value c = VBytes bs) \<Longrightarrow>
   \<exists>result'. remote_walk_idx result xs = Inr result'"
proof (induction xs arbitrary: result)
  case Nil
  show ?case by simp
next
  case (Cons c xs)
  from Cons.prems have rest: "\<forall>c \<in> set xs. Type c = OctetString \<longrightarrow> (\<exists>bs. Value c = VBytes bs)"
    by simp
  show ?case
  proof (cases "row_key c")
    case None
    with Cons.IH [OF rest] show ?thesis by (simp add: remote_walk_idx_skip)
  next
    case (Some k)
    then obtain s where s: "column_key c = Some s"
      using keys_together [of c] by (cases "column_key c") simp_all
    from Cons.prems have "\<exists>v. parseSNMPVariable_idx c = Inr v"
      by (cases "Type c"; cases "Value c") (simp_all add: parseSNMPVariable_idx_def)
    then obtain v where "parseSNMPVariable_idx c = Inr v" ..
    with Cons.IH [OF rest] Some s show ?thesis by (simp add: remote_walk_idx_store)
  qed
qed















section \<open>Properties of the batch loop\<close>

text \<open>A failed get or walk is logged and the loop goes on to the next record.\<close>

lemma main_loop_get_failure:
  assumes "2 \<le> length rec" and "Connect net (rec ! 0) (rec ! 1) = None"
    and "Get net (rec ! 0) localOids = Inl err"
  shows "main_loop net st (rec # records) =
     main_loop net
       (st\<lparr>logged := logged st @
          [ErrorFetchingLocal (rec ! 0) (''error getting local LLDP info: '' @ err)]\<rparr>) records"
  using assms by (simp add: initializeSNMP_def fetchLocalLLDP_def Let_def)

lemma main_loop_walk_failure:
  assumes "2 \<le> length rec" and "Connect net (rec ! 0) (rec ! 1) = None"
    and "fetchLocalLLDP (Get net (rec ! 0) localOids) = Inr localInfo"
    and "WalkAll net (rec ! 0) lldpRemTable = Inl err"
  shows "main_loop net st (rec # records) =
     main_loop net
       (st\<lparr>logged := logged st @
          [ErrorFetchingRemote (rec ! 0) (''error getting remote LLDP info: '' @ err)]\<rparr>) records"
  using assms by (simp add: initializeSNMP_def fetchRemoteLLDP_def Let_def)

text \<open>A failed connect ends the run, whatever records remain.\<close>

lemma main_loop_connect_failure:
  assumes "2 \<le> length rec" and "Connect net (rec ! 0) (rec ! 1) = Some err"
  shows "main_loop net st (rec # records) =
     Inl (Fatal (''Error connecting to target '' @ rec ! 0 @ '': '' @ err))"
  using assms by (simp add: initializeSNMP_def Let_def)

text \<open>
  C6. The claim: a transport failure on one target (connect, get or walk) is logged, the
  target is skipped and the remaining targets are processed. The loop of \<open>main\<close> does
  this for a failed get and a failed walk, but \<open>initializeSNMP\<close> sends a failed connect to
  \<open>log.Fatalf\<close>. With \<open>sw-down\<close> unreachable and listed before \<open>sw-up\<close>, the run ends
  at \<open>sw-down\<close> and writes nothing, although \<open>sw-up\<close> alone is collected.
\<close>

theorem connect_failure_aborts_batch:
  "main net_first_down [[''sw-down'', ''public''], [''sw-up'', ''public'']] =
     Inl (Fatal ''Error connecting to target sw-down: lookup sw-down: no such host'')
   \<and> main net_first_down [[''sw-up'', ''public'']] =
     Inr \<lparr>allLocalInfo = [''sw-up'' \<mapsto> Map.empty], allRemoteInfo = [''sw-up'' \<mapsto> []], logged = []\<rparr>"
  by (simp add: main_def net_first_down_def initializeSNMP_def fetchLocalLLDP_def
      fetchRemoteLLDP_def Let_def)

end
